theory Spec2Isabelle
  imports Complex_Main "HOL-Library.Sublist"
begin

section \<open>Values, errors and library functions\<close>

text \<open>
  The two WebSocket commands of the CLI, \<^verbatim>\<open>debug listen\<close> (\<^verbatim>\<open>debugListenCmd\<close>) and
  \<^verbatim>\<open>connect\<close> (\<^verbatim>\<open>connectCmd\<close>), are embedded here. Go strings and byte slices are
  \<^typ>\<open>string\<close> (lists of bytes); text outside ASCII is written as its UTF-8 bytes.
  Line numbers are those of \<^verbatim>\<open>src/unnamed/part_001\<close> for the listen command and of
  \<^verbatim>\<open>src/pkg/cmd/events.go\<close> for the connect command.
\<close>

text \<open>
  A Go \<^verbatim>\<open>interface{}\<close> value as \<^verbatim>\<open>encoding/json\<close> produces it when decoding into
  \<^verbatim>\<open>map[string]interface{}\<close>: nil, bool, float64, string, \<^verbatim>\<open>[]interface{}\<close> or
  \<^verbatim>\<open>map[string]interface{}\<close>. A Go map is a partial function on its keys.
\<close>

datatype goval =
    VNil
  | VBool bool
  | VFloat real
  | VString string
  | VSlice "goval list"
  | VMap "string \<Rightarrow> goval option"

type_synonym gomap = "string \<Rightarrow> goval option"

text \<open>\<^verbatim>\<open>m[k]\<close>: a missing key reads as the zero value of \<^verbatim>\<open>interface{}\<close>, nil.\<close>

definition index :: "gomap \<Rightarrow> string \<Rightarrow> goval" where
  "index m k = (case m k of None \<Rightarrow> VNil | Some v \<Rightarrow> v)"

text \<open>The comma-ok type assertions \<^verbatim>\<open>v.(string)\<close> and \<^verbatim>\<open>v.(map[string]interface{})\<close>:
  the asserted value (the zero value on failure) and the ok flag.\<close>

definition assert_string :: "goval \<Rightarrow> string \<times> bool" where
  "assert_string v = (case v of VString s \<Rightarrow> (s, True) | _ \<Rightarrow> ('''', False))"

definition assert_map :: "goval \<Rightarrow> gomap \<times> bool" where
  "assert_map v = (case v of VMap m \<Rightarrow> (m, True) | _ \<Rightarrow> (Map.empty, False))"

text \<open>
  A Go \<^verbatim>\<open>error\<close> returned by the WebSocket library: a \<^verbatim>\<open>*websocket.CloseError\<close> with its
  close code, or any other error. The string is what \<^verbatim>\<open>err.Error()\<close> returns, which is
  what \<^verbatim>\<open>%v\<close> and \<^verbatim>\<open>log.Println\<close> print.
\<close>

datatype goerror = CloseError nat string | OtherError string

fun err_text :: "goerror \<Rightarrow> string" where
  "err_text (CloseError code s) = s"
| "err_text (OtherError s) = s"

definition CloseNormalClosure :: nat where "CloseNormalClosure = 1000"
definition CloseGoingAway :: nat where "CloseGoingAway = 1001"
definition TextMessage :: nat where "TextMessage = 1"
definition CloseMessage :: nat where "CloseMessage = 8"

text \<open>
  \<^verbatim>\<open>websocket.IsUnexpectedCloseError(err, expectedCodes...)\<close> of gorilla/websocket: true
  exactly for a \<^verbatim>\<open>*CloseError\<close> whose code is none of the expected codes; false for every
  error that is not a \<^verbatim>\<open>*CloseError\<close>.
\<close>

fun IsUnexpectedCloseError :: "goerror \<Rightarrow> nat list \<Rightarrow> bool" where
  "IsUnexpectedCloseError (CloseError code s) expectedCodes = (code \<notin> set expectedCodes)"
| "IsUnexpectedCloseError (OtherError s) expectedCodes = False"

definition CloseNoStatusReceived :: nat where "CloseNoStatusReceived = 1005"

text \<open>\<^verbatim>\<open>websocket.FormatCloseMessage(code, text)\<close>: empty for the code
  \<^verbatim>\<open>CloseNoStatusReceived\<close>; otherwise the code as two big-endian bytes, then the text.\<close>

definition FormatCloseMessage :: "nat \<Rightarrow> string \<Rightarrow> string" where
  "FormatCloseMessage code txt =
     (if code = CloseNoStatusReceived then []
      else char_of (code div 256) # char_of (code mod 256) # txt)"

text \<open>\<^verbatim>\<open>strings.Contains(s, substr)\<close>: \<^verbatim>\<open>substr\<close> occurs in \<^verbatim>\<open>s\<close> as a contiguous run of
  bytes; the empty string occurs everywhere.\<close>

fun Contains :: "string \<Rightarrow> string \<Rightarrow> bool" where
  "Contains [] substr = (substr = [])"
| "Contains (c # s) substr = (prefix substr (c # s) \<or> Contains s substr)"

text \<open>\<^verbatim>\<open>strings.Replace(s, old, new, 1)\<close> for a non-empty \<^verbatim>\<open>old\<close>: the first occurrence is
  replaced.\<close>

fun replace_first :: "string \<Rightarrow> string \<Rightarrow> string \<Rightarrow> string" where
  "replace_first [] old new = []"
| "replace_first (c # s) old new =
     (if prefix old (c # s) then new @ drop (length old) (c # s)
      else c # replace_first s old new)"

text \<open>
  The number of runes of a valid UTF-8 string (\<^verbatim>\<open>utf8.RuneCountInString\<close>): every byte
  that is not a continuation byte \<^verbatim>\<open>10xxxxxx\<close> starts one rune. Strings decoded by
  \<^verbatim>\<open>encoding/json\<close> are valid UTF-8.
\<close>

definition continuation_byte :: "char \<Rightarrow> bool" where
  "continuation_byte c = (128 \<le> (of_char c :: nat) \<and> (of_char c :: nat) < 192)"

fun rune_count :: "string \<Rightarrow> nat" where
  "rune_count [] = 0"
| "rune_count (c # s) = (if continuation_byte c then rune_count s else Suc (rune_count s))"

text \<open>The verb \<^verbatim>\<open>%-30s\<close> of \<^verbatim>\<open>fmt.Printf\<close>: the string, then spaces up to a width of \<open>n\<close>
  runes; a longer string is printed whole.\<close>

definition pad_right :: "nat \<Rightarrow> string \<Rightarrow> string" where
  "pad_right n s = s @ replicate (n - rune_count s) (CHR '' '')"

definition nl :: string where "nl = [CHR 0x0A]"
definition plug_emoji :: string where "plug_emoji = [CHR 0xF0, CHR 0x9F, CHR 0x94, CHR 0x8C]"
definition check_emoji :: string where "check_emoji = [CHR 0xE2, CHR 0x9C, CHR 0x85]"
definition cross_emoji :: string where "cross_emoji = [CHR 0xE2, CHR 0x9D, CHR 0x8C]"
definition wave_emoji :: string where "wave_emoji = [CHR 0xF0, CHR 0x9F, CHR 0x91, CHR 0x8B]"
definition box_line :: string where "box_line = [CHR 0xE2, CHR 0x94, CHR 0x80]"

text \<open>\<^verbatim>\<open>strings.Repeat(s, n)\<close>.\<close>

definition Repeat :: "string \<Rightarrow> nat \<Rightarrow> string" where
  "Repeat s n = concat (replicate n s)"

text \<open>What a command writes: one call of \<^verbatim>\<open>fmt.Printf\<close>/\<^verbatim>\<open>fmt.Println\<close> with the text it
  puts on standard output, or one call of the standard logger with its message (the
  logger adds its own date and time in front and writes to standard error).\<close>

datatype out = Print string | Log string

section \<open>The listen command: configuration and the reader goroutine\<close>

text \<open>
  Everything \<^verbatim>\<open>debugListenCmd.Run\<close> reads from outside: the viper settings, the flags,
  the outcome of \<^verbatim>\<open>Dial\<close> and of the \<^verbatim>\<open>WriteMessage\<close> that sends the close frame, and the
  two \<^verbatim>\<open>encoding/json\<close> functions it calls. \<open>Decode\<close> is the JSON value a message
  encodes, as \<^verbatim>\<open>encoding/json\<close> reads it into an \<^verbatim>\<open>interface{}\<close>: \<open>None\<close> when the message is
  not valid JSON, \<open>VNil\<close> for the literal \<^verbatim>\<open>null\<close>, a \<open>VMap\<close> for an object. \<open>MarshalIndent\<close>
  is \<^verbatim>\<open>json.MarshalIndent(event, "", "  ")\<close>.
\<close>

record listen_env =
  api_key :: string
  current_zone :: string
  zone_flag :: string
  api_url :: string
  verbose :: bool
  filterType :: string
  dial_result :: "goerror option"
  close_write_result :: "goerror option"
  Decode :: "string \<Rightarrow> goval option"
  MarshalIndent :: "gomap \<Rightarrow> string"

text \<open>
  \<^verbatim>\<open>json.Unmarshal(message, &event)\<close> with \<^verbatim>\<open>event\<close> a nil \<^verbatim>\<open>map[string]interface{}\<close> (line 89):
  \<open>None\<close> when it returns an error, the value of \<^verbatim>\<open>event\<close> afterwards otherwise. It
  returns an error for a message that is not valid JSON, and for a number, a string, a
  boolean or an array, which do not fit a map. An object fills the map. The literal
  \<^verbatim>\<open>null\<close> is accepted without an error and leaves the map nil; a nil map reads like a map
  with no keys, and is the empty map here (\<^verbatim>\<open>json.MarshalIndent\<close> alone tells the two apart,
  printing \<^verbatim>\<open>null\<close> for the nil map).
\<close>

definition unmarshal_map :: "goval option \<Rightarrow> gomap option" where
  "unmarshal_map d =
     (case d of
        None \<Rightarrow> None
      | Some (VMap m) \<Rightarrow> Some m
      | Some VNil \<Rightarrow> Some Map.empty
      | Some v \<Rightarrow> None)"

definition Unmarshal :: "listen_env \<Rightarrow> string \<Rightarrow> gomap option" where
  "Unmarshal E message = unmarshal_map (Decode E message)"

text \<open>What \<^verbatim>\<open>conn.ReadMessage()\<close> returns, and the text of
  \<^verbatim>\<open>time.Now().Format("15:04:05")\<close> at the moment the reader handles it.\<close>

datatype recv = Message string | ReadError goerror

record arrival =
  result :: recv
  stamp :: string

text \<open>Lines 107 to 112: the identifier of the compact line.\<close>

definition event_id :: "gomap \<Rightarrow> string" where
  "event_id event =
     (case assert_map (index event ''data'') of
        (data, True) \<Rightarrow>
          (case assert_string (index data ''id'') of
             (val, True) \<Rightarrow> val
           | (val, False) \<Rightarrow> '''')
      | (data, False) \<Rightarrow> '''')"

text \<open>Line 93: \<^verbatim>\<open>eventType, _ := event["type"].(string)\<close>.\<close>

definition event_type :: "gomap \<Rightarrow> string" where
  "event_type event = fst (assert_string (index event ''type''))"

text \<open>Lines 100 to 114: the text printed for an event that passed the filter, in
  verbose mode (format \<^verbatim>\<open>[%s] %s\n%s\n\n\<close>) and in compact mode (format
  \<^verbatim>\<open>[%s] %-30s  %s\n\<close>), given the formatted time.\<close>

definition render :: "listen_env \<Rightarrow> string \<Rightarrow> gomap \<Rightarrow> string" where
  "render E timestamp event =
     (if verbose E
      then ''['' @ timestamp @ ''] '' @ event_type event @ nl
           @ MarshalIndent E event @ nl @ nl
      else ''['' @ timestamp @ ''] '' @ pad_right 30 (event_type event)
           @ ''  '' @ event_id event @ nl)"

text \<open>
  One iteration of the reader's \<^verbatim>\<open>for\<close> loop (lines 78 to 115): what it prints, and
  whether the goroutine returned (closing \<^verbatim>\<open>done\<close>) instead of looping.
\<close>

definition listen_read :: "listen_env \<Rightarrow> arrival \<Rightarrow> out list \<times> bool" where
  "listen_read E a =
     (case result a of
        ReadError err \<Rightarrow>
          (if IsUnexpectedCloseError err [CloseGoingAway, CloseNormalClosure]
           then [Print (cross_emoji @ '' connection error: '' @ err_text err @ nl)]
           else [],
           True)
      | Message message \<Rightarrow>
          (case Unmarshal E message of
             None \<Rightarrow> ([], False)
           | Some event \<Rightarrow>
               (if filterType E \<noteq> '''' \<and> \<not> Contains (event_type event) (filterType E)
                then ([], False)
                else ([Print (render E (stamp a) event)], False))))"

text \<open>
  The reader goroutine on the receives it is given, in order: everything it prints, and
  whether it has returned. With the receives used up and no error among them it is
  blocked in \<^verbatim>\<open>ReadMessage\<close>, not returned.
\<close>

fun listen_reader :: "listen_env \<Rightarrow> arrival list \<Rightarrow> out list \<times> bool" where
  "listen_reader E [] = ([], False)"
| "listen_reader E (a # as) =
     (case listen_read E a of
        (outs, True) \<Rightarrow> (outs, True)
      | (outs, False) \<Rightarrow>
          (case listen_reader E as of (outs', fin) \<Rightarrow> (outs @ outs', fin)))"

section \<open>A session: the control goroutine and the reader goroutine\<close>

text \<open>How a command ends: \<^verbatim>\<open>os.Exit(n)\<close> (also the end of \<^verbatim>\<open>log.Fatal\<close>, with \<open>n = 1\<close>), or
  its \<^verbatim>\<open>Run\<close> function returns.\<close>

datatype ending = OsExit nat | RunReturned

text \<open>
  Modelled from the spec: the exit status of the process once \<^verbatim>\<open>Run\<close> has returned. The
  root command and \<^verbatim>\<open>main\<close> are not among the sources; the spec gives exit code 0 for a
  command that returns after its graceful shutdown. \<^verbatim>\<open>os.Exit(n)\<close> exits with \<open>n\<close>.
\<close>

definition exit_code :: "ending \<Rightarrow> nat" where
  "exit_code t = (case t of OsExit n \<Rightarrow> n | RunReturned \<Rightarrow> 0)"

text \<open>
  Where the control goroutine stands: blocked in the outer \<^verbatim>\<open>select\<close> (\<open>Running\<close>),
  blocked in the inner \<^verbatim>\<open>select\<close> after the close frame was written, with the instant at
  which \<^verbatim>\<open>time.After(time.Second)\<close> fires (\<open>Closing\<close>), or finished (\<open>Done\<close>).
\<close>

datatype phase = Running | Closing nat | Done ending

text \<open>
  The state of a session. \<open>reader_open\<close>: the reader goroutine has not returned, so the
  channel \<^verbatim>\<open>done\<close> is not closed. \<open>interrupt_chan\<close>: the channel \<^verbatim>\<open>interrupt\<close>, of capacity
  1, holds a signal. \<open>writes\<close>: the calls of \<^verbatim>\<open>WriteMessage\<close> so far, each with its message
  type and data. \<open>clock\<close>: the time in nanoseconds.
\<close>

record session =
  coord :: phase
  reader_open :: bool
  interrupt_chan :: bool
  printed :: "out list"
  writes :: "(nat \<times> string) list"
  clock :: nat

definition Second :: nat where "Second = 1000000000"

text \<open>
  What happens to a session, one step at a time: the operating system delivers an
  interrupt signal; \<^verbatim>\<open>ReadMessage\<close> returns in the reader goroutine; time passes; the control
  goroutine is scheduled and its \<^verbatim>\<open>select\<close> takes a ready case. Go chooses at random among
  several ready cases: the \<open>pick\<close> says which one it takes when both are ready.
\<close>

datatype pick = PickInterrupt | PickDone

datatype action = Signal | Arrive arrival | Elapse nat | Select pick

text \<open>The reader goroutine handles one receive, if it is still running; \<open>read\<close> is the body
  of its loop.\<close>

definition arrive :: "(arrival \<Rightarrow> out list \<times> bool) \<Rightarrow> arrival \<Rightarrow> session \<Rightarrow> session" where
  "arrive read a s =
     (if reader_open s
      then (case read a of
              (outs, fin) \<Rightarrow> s\<lparr>reader_open := \<not> fin, printed := printed s @ outs\<rparr>)
      else s)"

text \<open>
  One step of a session. \<^verbatim>\<open>signal.Notify\<close> sends without blocking: a signal that finds the
  channel full is dropped. Once \<^verbatim>\<open>Run\<close> has returned the process is gone and nothing
  happens any more. A step is taken as a whole: what the reader prints does not fall
  between the lines that one step of the control goroutine prints, as it can when the two
  goroutines really run side by side.
\<close>

definition step ::
  "(arrival \<Rightarrow> out list \<times> bool) \<Rightarrow> (pick \<Rightarrow> session \<Rightarrow> session) \<Rightarrow> session \<Rightarrow> action \<Rightarrow> session"
where
  "step read sel s act =
     (case coord s of
        Done t \<Rightarrow> s
      | _ \<Rightarrow>
          (case act of
             Signal \<Rightarrow> s\<lparr>interrupt_chan := True\<rparr>
           | Arrive a \<Rightarrow> arrive read a s
           | Elapse d \<Rightarrow> s\<lparr>clock := clock s + d\<rparr>
           | Select p \<Rightarrow> sel p s))"

definition close_frame :: "nat \<times> string" where
  "close_frame = (CloseMessage, FormatCloseMessage CloseNormalClosure '''')"

subsection \<open>The listen command\<close>

text \<open>Lines 36 to 53: the URL that is dialled.\<close>

definition ws_url :: "listen_env \<Rightarrow> string" where
  "ws_url E =
     (let zone = (if current_zone E = '''' then zone_flag E else current_zone E);
          wsURL = (if api_url E \<noteq> '''' \<and> \<not> Contains (api_url E) ''localhost''
                   then replace_first (api_url E) ''https://'' ''wss://'' @ ''/v1/events/stream''
                   else ''ws://localhost:8089/v1/events/stream'');
          wsURL = wsURL @ ''?api_key='' @ api_key E
      in if zone \<noteq> '''' then wsURL @ ''&zone='' @ zone else wsURL)"

definition api_key_missing :: string where
  "api_key_missing = ''Error: API key not set. Use 'sapliy auth login'.'' @ nl"

text \<open>Lines 30 to 74, at time \<open>t0\<close>: the command up to the start of the reader goroutine,
  or its early end.\<close>

definition listen_start :: "listen_env \<Rightarrow> nat \<Rightarrow> session" where
  "listen_start E t0 =
     (if api_key E = ''''
      then \<lparr>coord = Done (OsExit 1), reader_open = False, interrupt_chan = False,
            printed = [Print api_key_missing], writes = [], clock = t0\<rparr>
      else
        (case dial_result E of
           Some err \<Rightarrow>
             \<lparr>coord = Done RunReturned, reader_open = False, interrupt_chan = False,
              printed = [Print (plug_emoji @ '' Connecting to '' @ ws_url E @ ''...'' @ nl),
                         Print (cross_emoji @ '' Failed to connect: '' @ err_text err @ nl)],
              writes = [], clock = t0\<rparr>
         | None \<Rightarrow>
             \<lparr>coord = Running, reader_open = True, interrupt_chan = False,
              printed = [Print (plug_emoji @ '' Connecting to '' @ ws_url E @ ''...'' @ nl),
                         Print (check_emoji
                                @ '' Connected! Streaming events... (Ctrl+C to stop)'' @ nl),
                         Print (Repeat box_line 60 @ nl)],
              writes = [], clock = t0\<rparr>))"

text \<open>Lines 118 to 131: the control goroutine takes a ready case of the \<^verbatim>\<open>select\<close> it is
  blocked in; with no case ready it stays blocked.\<close>

definition listen_select :: "listen_env \<Rightarrow> pick \<Rightarrow> session \<Rightarrow> session" where
  "listen_select E p s =
     (case coord s of
        Running \<Rightarrow>
          (if interrupt_chan s \<and> (reader_open s \<or> p = PickInterrupt)
           then
             (let s' = s\<lparr>interrupt_chan := False,
                         printed := printed s @ [Print (nl @ wave_emoji @ '' Disconnecting...'' @ nl)],
                         writes := writes s @ [close_frame]\<rparr>
              in case close_write_result E of
                   Some err \<Rightarrow> s'\<lparr>coord := Done RunReturned\<rparr>
                 | None \<Rightarrow> s'\<lparr>coord := Closing (clock s + Second)\<rparr>)
           else if reader_open s then s
           else s\<lparr>coord := Done RunReturned,
                  printed := printed s @ [Print (''Server closed connection'' @ nl)]\<rparr>)
      | Closing deadline \<Rightarrow>
          (if reader_open s \<and> clock s < deadline then s
           else s\<lparr>coord := Done RunReturned\<rparr>)
      | Done t \<Rightarrow> s)"

definition listen_step :: "listen_env \<Rightarrow> session \<Rightarrow> action \<Rightarrow> session" where
  "listen_step E = step (listen_read E) (listen_select E)"

definition listen_run :: "listen_env \<Rightarrow> session \<Rightarrow> action list \<Rightarrow> session" where
  "listen_run E s acts = foldl (listen_step E) s acts"

subsection \<open>The connect command\<close>

text \<open>
  What \<^verbatim>\<open>connectCmd.Run\<close> reads from outside: its arguments and flags, \<^verbatim>\<open>url.Parse\<close> (the
  error, or \<^verbatim>\<open>u.String()\<close>), the outcome of \<^verbatim>\<open>Dial\<close> for a URL and its header, and the
  outcomes of the two calls of \<^verbatim>\<open>WriteMessage\<close>.
\<close>

record connect_env =
  args :: "string list"
  key_flag :: string
  trigger_flag :: string
  url_parse :: "string \<Rightarrow> goerror + string"
  connect_dial :: "string \<Rightarrow> (string \<times> string) list \<Rightarrow> goerror option"
  trigger_write_result :: "goerror option"
  connect_close_write_result :: "goerror option"

text \<open>Lines 115 to 122 of events.go: one iteration of the reader loop.\<close>

definition connect_read :: "arrival \<Rightarrow> out list \<times> bool" where
  "connect_read a =
     (case result a of
        ReadError err \<Rightarrow> ([Log (''read-error: '' @ err_text err @ nl)], True)
      | Message message \<Rightarrow> ([Print (''< '' @ message @ nl)], False))"

text \<open>
  Lines 82 to 135 of events.go, at time \<open>t0\<close>: the command up to its \<^verbatim>\<open>for\<close>/\<^verbatim>\<open>select\<close> loop, or
  its early end. \<^verbatim>\<open>log.Fatal\<close> formats its operands as \<^verbatim>\<open>fmt.Print\<close> does (no space after a
  string operand) and calls \<^verbatim>\<open>os.Exit(1)\<close>. The trigger is written by the control goroutine
  before any receive is handled here.
\<close>

definition connect_start :: "connect_env \<Rightarrow> nat \<Rightarrow> session" where
  "connect_start C t0 =
     (let serverURL = (case args C of [] \<Rightarrow> ''ws://localhost:8080/ws'' | a # rest \<Rightarrow> a)
      in case url_parse C serverURL of
           Inl err \<Rightarrow>
             \<lparr>coord = Done (OsExit 1), reader_open = False, interrupt_chan = False,
              printed = [Log (''Invalid URL:'' @ err_text err)], writes = [], clock = t0\<rparr>
         | Inr u \<Rightarrow>
             (let connecting = Print (plug_emoji @ '' Connecting to '' @ u @ ''...'' @ nl);
                  header = (if key_flag C \<noteq> ''''
                            then [(''Authorization'', ''Bearer '' @ key_flag C)] else [])
              in case connect_dial C u header of
                   Some err \<Rightarrow>
                     \<lparr>coord = Done (OsExit 1), reader_open = False, interrupt_chan = False,
                      printed = [connecting, Log (''Connection failed:'' @ err_text err)],
                      writes = [], clock = t0\<rparr>
                 | None \<Rightarrow>
                     (let connected = Print (check_emoji @ '' Connected! Listening for events...'' @ nl)
                      in if trigger_flag C \<noteq> ''''
                         then
                           \<lparr>coord = Running, reader_open = True, interrupt_chan = False,
                            printed = [connecting, connected,
                                       Print (''> Triggering event: '' @ trigger_flag C @ nl)]
                                      @ (case trigger_write_result C of
                                           Some err \<Rightarrow> [Log (''write-error: '' @ err_text err @ nl)]
                                         | None \<Rightarrow> []),
                            writes = [(TextMessage, trigger_flag C)], clock = t0\<rparr>
                         else
                           \<lparr>coord = Running, reader_open = True, interrupt_chan = False,
                            printed = [connecting, connected], writes = [], clock = t0\<rparr>)))"

text \<open>Lines 137 to 155 of events.go: the control goroutine takes a ready case.\<close>

definition connect_select :: "connect_env \<Rightarrow> pick \<Rightarrow> session \<Rightarrow> session" where
  "connect_select C p s =
     (case coord s of
        Running \<Rightarrow>
          (if interrupt_chan s \<and> (reader_open s \<or> p = PickInterrupt)
           then
             (let s' = s\<lparr>interrupt_chan := False,
                         printed := printed s @ [Print (nl @ ''Disconnecting...'' @ nl)],
                         writes := writes s @ [close_frame]\<rparr>
              in case connect_close_write_result C of
                   Some err \<Rightarrow>
                     s'\<lparr>coord := Done RunReturned,
                        printed := printed s' @ [Log (''write-close: '' @ err_text err @ nl)]\<rparr>
                 | None \<Rightarrow> s'\<lparr>coord := Closing (clock s + Second)\<rparr>)
           else if reader_open s then s
           else s\<lparr>coord := Done RunReturned\<rparr>)
      | Closing deadline \<Rightarrow>
          (if reader_open s \<and> clock s < deadline then s
           else s\<lparr>coord := Done RunReturned\<rparr>)
      | Done t \<Rightarrow> s)"

definition connect_step :: "connect_env \<Rightarrow> session \<Rightarrow> action \<Rightarrow> session" where
  "connect_step C = step connect_read (connect_select C)"

definition connect_run :: "connect_env \<Rightarrow> session \<Rightarrow> action list \<Rightarrow> session" where
  "connect_run C s acts = foldl (connect_step C) s acts"

section \<open>Vocabulary of the properties\<close>

text \<open>An inbound frame as the reader meets it: the message bytes and the formatted time
  at which it is handled.\<close>

definition frame :: "string \<times> string \<Rightarrow> arrival" where
  "frame f = \<lparr>result = Message (fst f), stamp = snd f\<rparr>"

text \<open>A frame is accepted by the decoder (\<^verbatim>\<open>json.Unmarshal\<close> returns no error) and its type
  matches the filter, where an absent filter, the empty string, matches every type.\<close>

definition passes :: "listen_env \<Rightarrow> string \<times> string \<Rightarrow> bool" where
  "passes E f =
     (case Unmarshal E (fst f) of
        None \<Rightarrow> False
      | Some event \<Rightarrow> filterType E = '''' \<or> Contains (event_type event) (filterType E))"

text \<open>A frame decodes to a JSON object, and the type of that object matches the filter.\<close>

definition object_passes :: "listen_env \<Rightarrow> string \<times> string \<Rightarrow> bool" where
  "object_passes E f =
     (case Decode E (fst f) of
        Some (VMap event) \<Rightarrow> filterType E = '''' \<or> Contains (event_type event) (filterType E)
      | _ \<Rightarrow> False)"

text \<open>The rendered line of a frame that the decoder accepts.\<close>

definition line_of :: "listen_env \<Rightarrow> string \<times> string \<Rightarrow> out" where
  "line_of E f = Print (render E (snd f) (the (Unmarshal E (fst f))))"

text \<open>What can be observed of a session: everything but the content of the signal
  channel.\<close>

definition observable :: "session \<Rightarrow> phase \<times> bool \<times> out list \<times> (nat \<times> string) list \<times> nat" where
  "observable s = (coord s, reader_open s, printed s, writes s, clock s)"

subsection \<open>A concrete environment\<close>

text \<open>Frames of an example stream, and a decoder and a printer that agree with
  \<^verbatim>\<open>encoding/json\<close> on them. The decoder takes every other message for invalid JSON; the
  printer is only meant for the events of these frames.\<close>

definition frame_created :: string where
  \<open>frame_created = ''{"type":"payment.created","data":{"id":"pay_1"}}''\<close>

definition frame_failed :: string where
  \<open>frame_failed = ''{"type":"payment.failed","data":{"id":"pay_2"}}''\<close>

definition frame_login :: string where
  \<open>frame_login = ''{"type":"user.login","data":{"id":42}}''\<close>

definition frame_heartbeat :: string where
  \<open>frame_heartbeat = ''{"type":"system.heartbeat"}''\<close>

definition frame_untyped :: string where
  \<open>frame_untyped = ''{"data":{"id":"evt_9"}}''\<close>

definition frame_long :: string where
  \<open>frame_long = ''{"type":"payment.subscription.renewal.failed"}''\<close>

definition frame_broken :: string where
  \<open>frame_broken = ''{"type":"payment.created"''\<close>

definition frame_null :: string where
  "frame_null = ''null''"

definition frame_number :: string where
  "frame_number = ''42''"

definition event_created :: gomap where
  "event_created =
     [''type'' \<mapsto> VString ''payment.created'', ''data'' \<mapsto> VMap [''id'' \<mapsto> VString ''pay_1'']]"

definition example_decode :: "string \<Rightarrow> goval option" where
  "example_decode message =
     (if message = frame_created then Some (VMap event_created)
      else if message = frame_failed
      then Some (VMap [''type'' \<mapsto> VString ''payment.failed'',
                       ''data'' \<mapsto> VMap [''id'' \<mapsto> VString ''pay_2'']])
      else if message = frame_login
      then Some (VMap [''type'' \<mapsto> VString ''user.login'',
                       ''data'' \<mapsto> VMap [''id'' \<mapsto> VFloat 42]])
      else if message = frame_heartbeat
      then Some (VMap [''type'' \<mapsto> VString ''system.heartbeat''])
      else if message = frame_untyped
      then Some (VMap [''data'' \<mapsto> VMap [''id'' \<mapsto> VString ''evt_9'']])
      else if message = frame_long
      then Some (VMap [''type'' \<mapsto> VString ''payment.subscription.renewal.failed''])
      else if message = frame_null then Some VNil
      else if message = frame_number then Some (VFloat 42)
      else None)"

text \<open>\<^verbatim>\<open>json.Unmarshal\<close> into a map on the example frames.\<close>

definition example_unmarshal :: "string \<Rightarrow> gomap option" where
  "example_unmarshal message = unmarshal_map (example_decode message)"

definition pretty_created :: string where
  \<open>pretty_created =
     ''{'' @ nl @
     ''  "data": {'' @ nl @
     ''    "id": "pay_1"'' @ nl @
     ''  },'' @ nl @
     ''  "type": "payment.created"'' @ nl @
     ''}''\<close>

definition pretty_failed :: string where
  \<open>pretty_failed =
     ''{'' @ nl @
     ''  "data": {'' @ nl @
     ''    "id": "pay_2"'' @ nl @
     ''  },'' @ nl @
     ''  "type": "payment.failed"'' @ nl @
     ''}''\<close>

definition pretty_login :: string where
  \<open>pretty_login =
     ''{'' @ nl @
     ''  "data": {'' @ nl @
     ''    "id": 42'' @ nl @
     ''  },'' @ nl @
     ''  "type": "user.login"'' @ nl @
     ''}''\<close>

definition pretty_heartbeat :: string where
  \<open>pretty_heartbeat =
     ''{'' @ nl @
     ''  "type": "system.heartbeat"'' @ nl @
     ''}''\<close>

definition pretty_untyped :: string where
  \<open>pretty_untyped =
     ''{'' @ nl @
     ''  "data": {'' @ nl @
     ''    "id": "evt_9"'' @ nl @
     ''  }'' @ nl @
     ''}''\<close>

definition pretty_long :: string where
  \<open>pretty_long =
     ''{'' @ nl @
     ''  "type": "payment.subscription.renewal.failed"'' @ nl @
     ''}''\<close>

text \<open>The events of the example frames differ in type and identifier, by which the
  printer tells them apart; the event without either is the nil map of \<open>frame_null\<close>.\<close>

definition example_marshal :: "gomap \<Rightarrow> string" where
  "example_marshal event =
     (if event_type event = ''payment.created'' \<and> event_id event = ''pay_1'' then pretty_created
      else if event_type event = ''payment.failed'' \<and> event_id event = ''pay_2'' then pretty_failed
      else if event_type event = ''user.login'' \<and> event_id event = [] then pretty_login
      else if event_type event = ''system.heartbeat'' \<and> event_id event = [] then pretty_heartbeat
      else if event_type event = [] \<and> event_id event = ''evt_9'' then pretty_untyped
      else if event_type event = ''payment.subscription.renewal.failed'' \<and> event_id event = []
      then pretty_long
      else ''null'')"

definition example_env :: listen_env where
  "example_env =
     \<lparr>api_key = ''sk_test_1234'', current_zone = '''', zone_flag = '''', api_url = '''',
      verbose = False, filterType = '''', dial_result = None, close_write_result = None,
      Decode = example_decode, MarshalIndent = example_marshal\<rparr>"

definition example_connect_env :: connect_env where
  "example_connect_env =
     \<lparr>args = [], key_flag = '''', trigger_flag = '''',
      url_parse = (\<lambda>u. Inr u), connect_dial = (\<lambda>u h. None),
      trigger_write_result = None, connect_close_write_result = None\<rparr>"

definition normal_close :: goerror where
  "normal_close = CloseError 1000 ''websocket: close 1000 (normal)''"

definition refused :: goerror where
  "refused = OtherError ''dial tcp 127.0.0.1:8089: connect: connection refused''"

section \<open>Properties of the reader of the listen command\<close>

lemmas frames_defs = frame_created_def frame_failed_def frame_login_def frame_heartbeat_def
  frame_untyped_def frame_long_def frame_broken_def frame_null_def frame_number_def

lemmas example_unmarshal_defs = example_unmarshal_def example_decode_def unmarshal_map_def

lemmas value_defs = event_type_def event_id_def index_def assert_string_def assert_map_def

lemma listen_read_frame:
  "listen_read E (frame f) = (if passes E f then [line_of E f] else [], False)"
  by (auto simp: listen_read_def frame_def passes_def line_of_def split: option.splits)

lemma listen_reader_frames:
  "listen_reader E (map frame fs) = (map (line_of E) (filter (passes E) fs), False)"
  by (induction fs) (simp_all add: listen_read_frame)

lemma example_env_sel:
  "filterType (example_env\<lparr>filterType := f, verbose := v\<rparr>) = f"
  "verbose (example_env\<lparr>filterType := f, verbose := v\<rparr>) = v"
  "Unmarshal (example_env\<lparr>filterType := f, verbose := v\<rparr>) = example_unmarshal"
  "MarshalIndent (example_env\<lparr>filterType := f, verbose := v\<rparr>) = example_marshal"
  "filterType example_env = ''''"
  "verbose example_env = False"
  "Unmarshal example_env = example_unmarshal"
  "MarshalIndent example_env = example_marshal"
  by (simp_all add: example_env_def Unmarshal_def example_unmarshal_def fun_eq_iff)

lemma example_unmarshal_type:
  "\<exists>ev. example_unmarshal frame_created = Some ev
      \<and> event_type ev = ''payment.created'' \<and> event_id ev = ''pay_1''"
  "\<exists>ev. example_unmarshal frame_failed = Some ev
      \<and> event_type ev = ''payment.failed'' \<and> event_id ev = ''pay_2''"
  "\<exists>ev. example_unmarshal frame_login = Some ev
      \<and> event_type ev = ''user.login'' \<and> event_id ev = ''''"
  "\<exists>ev. example_unmarshal frame_heartbeat = Some ev
      \<and> event_type ev = ''system.heartbeat'' \<and> event_id ev = ''''"
  "\<exists>ev. example_unmarshal frame_untyped = Some ev
      \<and> event_type ev = '''' \<and> event_id ev = ''evt_9''"
  "\<exists>ev. example_unmarshal frame_long = Some ev
      \<and> event_type ev = ''payment.subscription.renewal.failed'' \<and> event_id ev = ''''"
  "example_unmarshal frame_broken = None"
  by (simp_all add: example_unmarshal_defs frames_defs value_defs event_created_def)

lemma example_passes:
  "passes (example_env\<lparr>filterType := ''payment'', verbose := False\<rparr>) (frame_created, t)"
  "passes (example_env\<lparr>filterType := ''payment'', verbose := False\<rparr>) (frame_failed, t)"
  "\<not> passes (example_env\<lparr>filterType := ''payment'', verbose := False\<rparr>) (frame_login, t)"
  "\<not> passes (example_env\<lparr>filterType := ''payment'', verbose := False\<rparr>) (frame_heartbeat, t)"
  using example_unmarshal_type by (auto simp: passes_def example_env_sel)

lemma example_lines:
  "line_of (example_env\<lparr>filterType := f, verbose := False\<rparr>) (frame_created, t)
     = Print (''['' @ t @ ''] payment.created'' @ replicate 15 (CHR '' '') @ ''  pay_1'' @ nl)"
  "line_of (example_env\<lparr>filterType := f, verbose := False\<rparr>) (frame_failed, t)
     = Print (''['' @ t @ ''] payment.failed'' @ replicate 16 (CHR '' '') @ ''  pay_2'' @ nl)"
  using example_unmarshal_type
  by (auto simp: line_of_def render_def example_env_sel pad_right_def continuation_byte_def)

lemma example_created_line:
  "fst (listen_read example_env (frame (frame_created, t)))
     = [Print (''['' @ t @ ''] payment.created'' @ replicate 15 (CHR '' '') @ ''  pay_1'' @ nl)]"
proof -
  have p: "passes example_env (frame_created, t)"
    using example_unmarshal_type by (auto simp: passes_def example_env_sel)
  have l: "line_of example_env (frame_created, t)
             = Print (''['' @ t @ ''] payment.created'' @ replicate 15 (CHR '' '') @ ''  pay_1'' @ nl)"
    using example_lines(1) [of "''''" t] by (simp add: example_env_def)
  show ?thesis by (simp add: listen_read_frame p l)
qed

lemma event_type_empty: "event_type Map.empty = ''''"
  by (simp add: value_defs)

lemma event_id_empty: "event_id Map.empty = ''''"
  by (simp add: value_defs)

text \<open>What the decoder accepts: an object, or the literal \<^verbatim>\<open>null\<close>, whose nil map has the
  empty type and so passes the empty filter only.\<close>

lemma passes_cases:
  "passes E f = (object_passes E f \<or> Decode E (fst f) = Some VNil \<and> filterType E = '''')"
  by (auto simp: passes_def object_passes_def Unmarshal_def unmarshal_map_def event_type_empty
        split: option.splits goval.splits)

lemma Unmarshal_None:
  "(Unmarshal E message = None)
     = ((\<forall>m. Decode E message \<noteq> Some (VMap m)) \<and> Decode E message \<noteq> Some VNil)"
  by (auto simp: Unmarshal_def unmarshal_map_def split: option.splits goval.splits)

lemma example_decode_frames:
  "Decode example_env frame_null = Some VNil"
  "Unmarshal example_env frame_null = Some Map.empty"
  "Decode example_env frame_number = Some (VFloat 42)"
  "Decode example_env frame_broken = None"
  "Decode example_env frame_created = Some (VMap event_created)"
  by (simp_all add: example_env_def Unmarshal_def example_unmarshal_defs frames_defs)

lemma example_null_line:
  "listen_read example_env \<lparr>result = Message frame_null, stamp = t\<rparr>
     = ([Print (''['' @ t @ ''] '' @ replicate 30 (CHR '' '') @ ''  '' @ nl)], False)"
  by (simp add: listen_read_def example_decode_frames example_env_sel(5,6) render_def
        event_type_empty event_id_empty pad_right_def)

text \<open>
  C1, as stated, fails on the frame \<^verbatim>\<open>null\<close>. It is no JSON object, but \<^verbatim>\<open>json.Unmarshal\<close>
  accepts it and leaves the map nil, and with no filter the reader prints a line with an
  empty type and an empty identifier for it. Of the two frames below one decodes to a JSON
  object, and two lines are printed.
\<close>

theorem null_frame_counted:
  "length (filter (object_passes example_env)
     [(frame_created, ''12:00:01''), (frame_null, ''12:00:02'')]) = 1
   \<and> fst (listen_reader example_env
       (map frame [(frame_created, ''12:00:01''), (frame_null, ''12:00:02'')]))
     = [Print (''[12:00:01] payment.created'' @ replicate 15 (CHR '' '') @ ''  pay_1'' @ nl),
        Print (''[12:00:02] '' @ replicate 30 (CHR '' '') @ ''  '' @ nl)]"
proof -
  have o: "object_passes example_env (frame_created, ''12:00:01'')"
    "\<not> object_passes example_env (frame_null, ''12:00:02'')"
    by (simp_all add: object_passes_def example_decode_frames example_env_sel(5))
  have r: "listen_read example_env (frame (frame_null, ''12:00:02''))
             = ([Print (''[12:00:02] '' @ replicate 30 (CHR '' '') @ ''  '' @ nl)], False)"
    using example_null_line [of "''12:00:02''"] by (simp add: frame_def)
  have c: "listen_read example_env (frame (frame_created, ''12:00:01''))
             = ([Print (''[12:00:01] payment.created'' @ replicate 15 (CHR '' '') @ ''  pay_1'' @ nl)],
                False)"
    using example_created_line [of "''12:00:01''"] listen_read_frame [of example_env]
    by (simp split: if_splits)
  from o r c show ?thesis by simp
qed

text \<open>
  C1, amended. The reader is given N frames, and M of them are accepted by the decoder
  (\<^verbatim>\<open>json.Unmarshal\<close> into the map returns no error) and have a type that matches the
  filter, where every type matches the empty filter. Then it prints exactly M rendered
  lines: the lines of those M frames, in the order in which the frames arrived, and it
  is still in its loop afterwards. The decoder accepts a JSON object, and the literal
  \<^verbatim>\<open>null\<close>, which has the empty type and so counts only when there is no filter. With a
  filter, or with no \<^verbatim>\<open>null\<close> among the frames, the M frames are those that decode to a JSON
  object whose type matches the filter.
\<close>

theorem listen_reader_count_order:
  assumes "length (filter (passes E) frames) = M"
  shows "fst (listen_reader E (map frame frames)) = map (line_of E) (filter (passes E) frames)
       \<and> length (fst (listen_reader E (map frame frames))) = M
       \<and> snd (listen_reader E (map frame frames)) = False
       \<and> (\<forall>f. passes E f
                = (object_passes E f \<or> Decode E (fst f) = Some VNil \<and> filterType E = ''''))
       \<and> (filterType E \<noteq> '''' \<or> (\<forall>f \<in> set frames. Decode E (fst f) \<noteq> Some VNil)
            \<longrightarrow> filter (passes E) frames = filter (object_passes E) frames)"
proof -
  have "filter (passes E) frames = filter (object_passes E) frames"
    if "filterType E \<noteq> '''' \<or> (\<forall>f \<in> set frames. Decode E (fst f) \<noteq> Some VNil)"
    using that by (intro filter_cong refl) (auto simp: passes_cases)
  with assms show ?thesis
    by (simp add: listen_reader_frames passes_cases)
qed

theorem listen_reader_count_order_witness:
  "length (filter (passes (example_env\<lparr>filterType := ''payment'', verbose := False\<rparr>))
     [(frame_created, ''12:00:01''), (frame_failed, ''12:00:02''), (frame_login, ''12:00:03''),
      (frame_created, ''12:00:04''), (frame_heartbeat, ''12:00:05'')]) = 3
   \<and> fst (listen_reader (example_env\<lparr>filterType := ''payment'', verbose := False\<rparr>)
       (map frame
         [(frame_created, ''12:00:01''), (frame_failed, ''12:00:02''), (frame_login, ''12:00:03''),
          (frame_created, ''12:00:04''), (frame_heartbeat, ''12:00:05'')]))
     = [Print (''[12:00:01] payment.created'' @ replicate 15 (CHR '' '') @ ''  pay_1'' @ nl),
        Print (''[12:00:02] payment.failed'' @ replicate 16 (CHR '' '') @ ''  pay_2'' @ nl),
        Print (''[12:00:04] payment.created'' @ replicate 15 (CHR '' '') @ ''  pay_1'' @ nl)]
   \<and> length (filter (passes example_env)
        [(frame_created, ''12:00:01''), (frame_null, ''12:00:02''), (frame_broken, ''12:00:03'')]) = 2
   \<and> fst (listen_reader example_env
       (map frame
         [(frame_created, ''12:00:01''), (frame_null, ''12:00:02''), (frame_broken, ''12:00:03'')]))
     = [Print (''[12:00:01] payment.created'' @ replicate 15 (CHR '' '') @ ''  pay_1'' @ nl),
        Print (''[12:00:02] '' @ replicate 30 (CHR '' '') @ ''  '' @ nl)]"
proof -
  have h: "length (filter (passes (example_env\<lparr>filterType := ''payment'', verbose := False\<rparr>))
     [(frame_created, ''12:00:01''), (frame_failed, ''12:00:02''), (frame_login, ''12:00:03''),
      (frame_created, ''12:00:04''), (frame_heartbeat, ''12:00:05'')]) = 3"
    by (simp add: example_passes)
  have p: "passes example_env (frame_created, ''12:00:01'')"
    "passes example_env (frame_null, ''12:00:02'')"
    "\<not> passes example_env (frame_broken, ''12:00:03'')"
    by (simp_all add: passes_cases object_passes_def example_decode_frames example_env_sel(5))
  have g: "length (filter (passes example_env)
        [(frame_created, ''12:00:01''), (frame_null, ''12:00:02''), (frame_broken, ''12:00:03'')]) = 2"
    by (simp add: p)
  have l: "line_of example_env (frame_created, ''12:00:01'')
             = Print (''[12:00:01] payment.created'' @ replicate 15 (CHR '' '') @ ''  pay_1'' @ nl)"
    "line_of example_env (frame_null, ''12:00:02'')
             = Print (''[12:00:02] '' @ replicate 30 (CHR '' '') @ ''  '' @ nl)"
  proof -
    show "line_of example_env (frame_created, ''12:00:01'')
             = Print (''[12:00:01] payment.created'' @ replicate 15 (CHR '' '') @ ''  pay_1'' @ nl)"
      using example_created_line [of "''12:00:01''"] by (simp add: listen_read_frame p)
    have "listen_read example_env (frame (frame_null, ''12:00:02''))
            = ([Print (''[12:00:02] '' @ replicate 30 (CHR '' '') @ ''  '' @ nl)], False)"
      using example_null_line [of "''12:00:02''"] by (simp add: frame_def)
    with listen_read_frame [of example_env "(frame_null, ''12:00:02'')"] p(2)
    show "line_of example_env (frame_null, ''12:00:02'')
             = Print (''[12:00:02] '' @ replicate 30 (CHR '' '') @ ''  '' @ nl)"
      by simp
  qed
  from listen_reader_count_order [OF h] listen_reader_count_order [OF g] h g show ?thesis
    by (simp add: example_passes example_lines p l)
qed

text \<open>
  C4, as stated, fails on the frame \<^verbatim>\<open>null\<close>: it does not decode to a JSON object, yet
  \<^verbatim>\<open>json.Unmarshal\<close> returns no error for it, and with no filter the reader prints a line
  for it.
\<close>

theorem null_frame_rendered:
  "Decode example_env frame_null = Some VNil
   \<and> \<not> object_passes example_env (frame_null, ''12:00:01'')
   \<and> listen_read example_env \<lparr>result = Message frame_null, stamp = ''12:00:01''\<rparr>
     = ([Print (''[12:00:01] '' @ replicate 30 (CHR '' '') @ ''  '' @ nl)], False)"
  by (simp add: example_decode_frames example_null_line object_passes_def)

text \<open>
  C4, amended. A frame that is neither a JSON object nor the literal \<^verbatim>\<open>null\<close> (it is not
  valid JSON, or it is a number, a string, a boolean or an array) is rejected by
  \<^verbatim>\<open>json.Unmarshal\<close>. It prints nothing, neither a rendered line nor an error, and does
  not end the loop: the reader goes on with the next receive, and the session is left
  as it was.
\<close>

theorem listen_decode_failure_skipped:
  assumes "\<forall>m. Decode E message \<noteq> Some (VMap m)" and "Decode E message \<noteq> Some VNil"
  shows "Unmarshal E message = None
       \<and> listen_read E \<lparr>result = Message message, stamp = t\<rparr> = ([], False)
       \<and> listen_reader E (\<lparr>result = Message message, stamp = t\<rparr> # rest) = listen_reader E rest
       \<and> listen_step E s (Arrive \<lparr>result = Message message, stamp = t\<rparr>) = s"
proof -
  have u: "Unmarshal E message = None"
    using assms by (simp add: Unmarshal_None)
  have r: "listen_read E \<lparr>result = Message message, stamp = t\<rparr> = ([], False)"
    using u by (simp add: listen_read_def)
  have "listen_step E s (Arrive \<lparr>result = Message message, stamp = t\<rparr>) = s"
    by (cases "coord s") (simp_all add: listen_step_def step_def arrive_def r)
  with u r show ?thesis by (simp split: prod.splits)
qed

theorem listen_decode_failure_skipped_witness:
  "Decode example_env frame_broken = None
   \<and> Decode example_env frame_number = Some (VFloat 42)
   \<and> listen_read example_env \<lparr>result = Message frame_broken, stamp = ''12:00:01''\<rparr> = ([], False)
   \<and> listen_read example_env \<lparr>result = Message frame_number, stamp = ''12:00:02''\<rparr> = ([], False)
   \<and> listen_reader example_env
        [\<lparr>result = Message frame_broken, stamp = ''12:00:01''\<rparr>,
         \<lparr>result = Message frame_number, stamp = ''12:00:02''\<rparr>,
         frame (frame_created, ''12:00:03'')]
      = ([Print (''[12:00:03] payment.created'' @ replicate 15 (CHR '' '') @ ''  pay_1'' @ nl)], False)"
proof -
  have b: "\<forall>m. Decode example_env frame_broken \<noteq> Some (VMap m)"
    "Decode example_env frame_broken \<noteq> Some VNil"
    and n: "\<forall>m. Decode example_env frame_number \<noteq> Some (VMap m)"
    "Decode example_env frame_number \<noteq> Some VNil"
    by (simp_all add: example_decode_frames)
  have c: "listen_read example_env (frame (frame_created, ''12:00:03''))
             = ([Print (''[12:00:03] payment.created'' @ replicate 15 (CHR '' '') @ ''  pay_1'' @ nl)],
                False)"
    using example_created_line [of "''12:00:03''"] listen_read_frame [of example_env]
    by (simp split: if_splits)
  from listen_decode_failure_skipped [OF b, of "''12:00:01''"]
       listen_decode_failure_skipped [OF n, of "''12:00:02''"]
  show ?thesis by (simp add: example_decode_frames c)
qed

lemma rune_count_append: "rune_count (xs @ ys) = rune_count xs + rune_count ys"
  by (induction xs) simp_all

lemma rune_count_spaces: "rune_count (replicate n (CHR '' '')) = n"
  by (induction n) (simp_all add: continuation_byte_def)

lemma rune_count_pad_right: "rune_count (pad_right n s) = max n (rune_count s)"
  by (simp add: pad_right_def rune_count_append rune_count_spaces)

lemma event_id_cases:
  "event_id event =
     (case event ''data'' of
        Some (VMap data) \<Rightarrow> (case data ''id'' of Some (VString val) \<Rightarrow> val | _ \<Rightarrow> '''')
      | _ \<Rightarrow> '''')"
  by (simp add: value_defs split: option.splits goval.splits)

lemma event_type_cases:
  "event_type event = (case event ''type'' of Some (VString s) \<Rightarrow> s | _ \<Rightarrow> '''')"
  by (simp add: value_defs split: option.splits goval.splits)

text \<open>
  C7, as stated, fails in one point: the type column of the compact line is not of
  fixed width. \<^verbatim>\<open>%-30s\<close> pads a short type to 30 characters and prints a longer one whole:
  the type of 35 characters below fills a column of 35, the type of 16 characters a
  column of 30.
\<close>


theorem compact_type_column_not_fixed:
  "listen_read example_env \<lparr>result = Message frame_long, stamp = ''12:00:01''\<rparr>
     = ([Print (''[12:00:01] '' @ ''payment.subscription.renewal.failed'' @ ''  '' @ '''' @ nl)], False)
   \<and> rune_count ''payment.subscription.renewal.failed'' = 35
   \<and> listen_read example_env \<lparr>result = Message frame_heartbeat, stamp = ''12:00:01''\<rparr>
     = ([Print (''[12:00:01] '' @ (''system.heartbeat'' @ replicate 14 (CHR '' '')) @ ''  '' @ '''' @ nl)], False)
   \<and> rune_count (''system.heartbeat'' @ replicate 14 (CHR '' '')) = 30"
  using example_unmarshal_type(4,6)
  by (auto simp: listen_read_def render_def example_env_sel pad_right_def continuation_byte_def
        rune_count_append rune_count_spaces)

text \<open>
  C7, amended. An event that decoded and passed the filter makes the reader print exactly
  one item. In compact mode it is \<open>[\<close>, the time, \<open>]\<close> and a space, then the type
  left-justified and filled with spaces up to 30 characters (a longer type is printed
  whole, so the column is as wide as the longer of the two), two spaces, the identifier
  and a newline; the identifier is \<^verbatim>\<open>data.id\<close> when \<^verbatim>\<open>data\<close> is an object whose \<^verbatim>\<open>id\<close> is a string,
  and empty otherwise. In verbose mode it is the time and the type, a newline, the
  payload as \<^verbatim>\<open>json.MarshalIndent\<close> prints it, and two newlines.
\<close>


theorem rendered_line_format:
  assumes "Unmarshal E message = Some event"
    and "filterType E = '''' \<or> Contains (event_type event) (filterType E)"
  shows "listen_read E \<lparr>result = Message message, stamp = t\<rparr>
           = ([Print (if verbose E
                      then ''['' @ t @ ''] '' @ event_type event @ nl
                           @ MarshalIndent E event @ nl @ nl
                      else ''['' @ t @ ''] '' @ event_type event
                           @ replicate (30 - rune_count (event_type event)) (CHR '' '')
                           @ ''  '' @ event_id event @ nl)], False)
       \<and> rune_count (event_type event
                      @ replicate (30 - rune_count (event_type event)) (CHR '' ''))
           = max 30 (rune_count (event_type event))
       \<and> event_id event =
           (case event ''data'' of
              Some (VMap data) \<Rightarrow> (case data ''id'' of Some (VString val) \<Rightarrow> val | _ \<Rightarrow> '''')
            | _ \<Rightarrow> '''')"
proof -
  have "listen_read E \<lparr>result = Message message, stamp = t\<rparr> = ([Print (render E t event)], False)"
    using assms by (auto simp: listen_read_def)
  moreover have "rune_count (event_type event
                      @ replicate (30 - rune_count (event_type event)) (CHR '' ''))
           = max 30 (rune_count (event_type event))"
    using rune_count_pad_right [of 30 "event_type event"] by (simp add: pad_right_def)
  ultimately show ?thesis
    using event_id_cases [of event] by (simp add: render_def pad_right_def)
qed

theorem rendered_line_format_witness:
  "Unmarshal example_env frame_created = Some event_created
   \<and> listen_read example_env \<lparr>result = Message frame_created, stamp = ''12:00:01''\<rparr>
       = ([Print (''[12:00:01] payment.created'' @ replicate 15 (CHR '' '') @ ''  pay_1'' @ nl)], False)
   \<and> listen_read (example_env\<lparr>filterType := ''created'', verbose := True\<rparr>)
        \<lparr>result = Message frame_created, stamp = ''12:00:01''\<rparr>
       = ([Print (''[12:00:01] payment.created'' @ nl @ pretty_created @ nl @ nl)], False)"
proof -
  have ty: "event_type event_created = ''payment.created''"
    and ident: "event_id event_created = ''pay_1''"
    by (simp_all add: event_created_def value_defs)
  have h1: "Unmarshal example_env frame_created = Some event_created"
    by (simp add: example_env_sel example_unmarshal_defs)
  have h2: "filterType example_env = '''' \<or> Contains (event_type event_created) (filterType example_env)"
    by (simp add: example_env_sel)
  have g1: "Unmarshal (example_env\<lparr>filterType := ''created'', verbose := True\<rparr>) frame_created
              = Some event_created"
    by (simp add: example_env_sel example_unmarshal_defs)
  have g2: "filterType (example_env\<lparr>filterType := ''created'', verbose := True\<rparr>) = ''''
            \<or> Contains (event_type event_created)
                 (filterType (example_env\<lparr>filterType := ''created'', verbose := True\<rparr>))"
    by (simp add: example_env_sel ty)
  from rendered_line_format [OF h1 h2, of "''12:00:01''"]
       rendered_line_format [OF g1 g2, of "''12:00:01''"] h1
  show ?thesis
    by (simp add: example_env_sel ty ident example_marshal_def continuation_byte_def)
qed

text \<open>
  C9. In compact mode the line ends with the identifier; the identifier is non-empty only
  when \<^verbatim>\<open>data\<close> is a JSON object with a key \<^verbatim>\<open>id\<close> whose value is a string, and it is
  that string. When \<^verbatim>\<open>data\<close> is an object whose \<^verbatim>\<open>id\<close> is missing or is no string (a number,
  a boolean, an object, null), or when \<^verbatim>\<open>data\<close> is no object, the identifier is empty.
\<close>


theorem compact_identifier:
  "render (E\<lparr>verbose := False\<rparr>) t event
     = ''['' @ t @ ''] '' @ pad_right 30 (event_type event) @ ''  '' @ event_id event @ nl
   \<and> (event_id event \<noteq> '''' \<longrightarrow>
        (\<exists>data. event ''data'' = Some (VMap data) \<and> data ''id'' = Some (VString (event_id event))))
   \<and> (\<forall>data. event ''data'' = Some (VMap data) \<and> (\<forall>s. data ''id'' \<noteq> Some (VString s))
        \<longrightarrow> event_id event = '''')
   \<and> ((\<forall>data. event ''data'' \<noteq> Some (VMap data)) \<longrightarrow> event_id event = '''')"
  by (auto simp: render_def event_id_cases split: option.splits goval.splits)

theorem compact_identifier_witness:
  "event_id event_created \<noteq> ''''
   \<and> event_created ''data'' = Some (VMap [''id'' \<mapsto> VString ''pay_1''])
   \<and> event_id event_created = ''pay_1''
   \<and> event_id [''type'' \<mapsto> VString ''user.login'', ''data'' \<mapsto> VMap [''id'' \<mapsto> VFloat 42]] = ''''
   \<and> event_id [''type'' \<mapsto> VString ''user.login'', ''data'' \<mapsto> VString ''x''] = ''''"
proof -
  have a: "event_id event_created \<noteq> ''''"
    by (simp add: event_created_def value_defs)
  have b: "[''type'' \<mapsto> VString ''user.login'', ''data'' \<mapsto> VMap [''id'' \<mapsto> VFloat 42]] ''data''
             = Some (VMap [''id'' \<mapsto> VFloat 42])
           \<and> (\<forall>s. [''id'' \<mapsto> VFloat 42] ''id'' \<noteq> Some (VString s))"
    by simp
  have c: "\<forall>data. [''type'' \<mapsto> VString ''user.login'', ''data'' \<mapsto> VString ''x''] ''data''
             \<noteq> Some (VMap data)"
    by simp
  from compact_identifier [of example_env "''12:00:01''" event_created] a
  obtain data where "event_created ''data'' = Some (VMap data)"
    "data ''id'' = Some (VString (event_id event_created))" by blast
  moreover have "event_created ''data'' = Some (VMap [''id'' \<mapsto> VString ''pay_1''])"
    by (simp add: event_created_def)
  ultimately have d: "event_id event_created = ''pay_1''" by auto
  from compact_identifier [of example_env "''12:00:01''"
      "[''type'' \<mapsto> VString ''user.login'', ''data'' \<mapsto> VMap [''id'' \<mapsto> VFloat 42]]"] b
  have e: "event_id [''type'' \<mapsto> VString ''user.login'', ''data'' \<mapsto> VMap [''id'' \<mapsto> VFloat 42]] = ''''"
    by blast
  from compact_identifier [of example_env "''12:00:01''"
      "[''type'' \<mapsto> VString ''user.login'', ''data'' \<mapsto> VString ''x'']"] c
  have f: "event_id [''type'' \<mapsto> VString ''user.login'', ''data'' \<mapsto> VString ''x''] = ''''"
    by blast
  from a d e f show ?thesis by (simp add: event_created_def)
qed

text \<open>
  C10. A frame decodes to an object whose \<^verbatim>\<open>type\<close> is missing or is no string. Its type
  reads as the empty string. With no filter the frame is rendered, with the empty type
  (in compact mode a column of 30 spaces); with any non-empty filter it is dropped.
\<close>


theorem listen_untyped_event:
  assumes "Unmarshal E message = Some event"
    and "\<forall>s. event ''type'' \<noteq> Some (VString s)"
  shows "event_type event = ''''
       \<and> (filterType E = '''' \<longrightarrow>
            listen_read E \<lparr>result = Message message, stamp = t\<rparr>
              = ([Print (if verbose E
                         then ''['' @ t @ ''] '' @ '''' @ nl @ MarshalIndent E event @ nl @ nl
                         else ''['' @ t @ ''] '' @ replicate 30 (CHR '' '')
                              @ ''  '' @ event_id event @ nl)], False))
       \<and> (filterType E \<noteq> '''' \<longrightarrow>
            listen_read E \<lparr>result = Message message, stamp = t\<rparr> = ([], False))"
proof -
  have ty: "event_type event = ''''"
    using assms(2) by (auto simp: event_type_cases split: option.splits goval.splits)
  have "filterType E \<noteq> '''' \<Longrightarrow> \<not> Contains '''' (filterType E)"
    by simp
  with ty assms(1) show ?thesis
    by (auto simp: listen_read_def render_def pad_right_def)
qed

theorem listen_untyped_event_witness:
  "listen_read example_env \<lparr>result = Message frame_untyped, stamp = ''12:00:01''\<rparr>
     = ([Print (''[12:00:01] '' @ replicate 30 (CHR '' '') @ ''  evt_9'' @ nl)], False)
   \<and> listen_read (example_env\<lparr>filterType := ''e'', verbose := False\<rparr>)
        \<lparr>result = Message frame_untyped, stamp = ''12:00:01''\<rparr> = ([], False)"
proof -
  let ?ev = "[''data'' \<mapsto> VMap [''id'' \<mapsto> VString ''evt_9'']] :: gomap"
  have u: "example_unmarshal frame_untyped = Some ?ev"
    by (simp add: example_unmarshal_defs frames_defs)
  have h1: "Unmarshal example_env frame_untyped = Some ?ev"
    and g1: "Unmarshal (example_env\<lparr>filterType := ''e'', verbose := False\<rparr>) frame_untyped = Some ?ev"
    by (simp_all add: example_env_sel u)
  have h2: "\<forall>s. ?ev ''type'' \<noteq> Some (VString s)" by simp
  have i: "event_id ?ev = ''evt_9''" by (simp add: value_defs)
  from listen_untyped_event [OF h1 h2, of "''12:00:01''"]
       listen_untyped_event [OF g1 h2, of "''12:00:01''"]
  show ?thesis by (simp add: example_env_sel i)
qed

section \<open>Properties of a session\<close>



lemma coord_arrive: "coord (arrive read a s) = coord s"
  by (simp add: arrive_def split: prod.splits)

lemma arrive_closed: "\<not> reader_open s \<Longrightarrow> arrive read a s = s"
  by (simp add: arrive_def)

lemma listen_select_not_Running:
  "coord s \<noteq> Running \<Longrightarrow> coord (listen_select E p s) \<noteq> Running"
  by (cases "coord s") (simp_all add: listen_select_def)

lemma connect_select_not_Running:
  "coord s \<noteq> Running \<Longrightarrow> coord (connect_select C p s) \<noteq> Running"
  by (cases "coord s") (simp_all add: connect_select_def)

lemma step_not_Running:
  assumes "\<And>p s. coord s \<noteq> Running \<Longrightarrow> coord (sel p s) \<noteq> Running"
    and "coord s \<noteq> Running"
  shows "coord (step read sel s act) \<noteq> Running"
  using assms by (cases "coord s"; cases act) (simp_all add: step_def coord_arrive)

lemma listen_select_chan:
  "coord s \<noteq> Running \<Longrightarrow>
     listen_select E p (s\<lparr>interrupt_chan := b\<rparr>) = (listen_select E p s)\<lparr>interrupt_chan := b\<rparr>"
  by (cases "coord s") (simp_all add: listen_select_def)

lemma connect_select_chan:
  "coord s \<noteq> Running \<Longrightarrow>
     connect_select C p (s\<lparr>interrupt_chan := b\<rparr>) = (connect_select C p s)\<lparr>interrupt_chan := b\<rparr>"
  by (cases "coord s") (simp_all add: connect_select_def)

lemma step_chan:
  assumes "\<And>p s b. coord s \<noteq> Running \<Longrightarrow> sel p (s\<lparr>interrupt_chan := b\<rparr>) = (sel p s)\<lparr>interrupt_chan := b\<rparr>"
    and "coord s \<noteq> Running"
  shows "\<exists>b'. step read sel (s\<lparr>interrupt_chan := b\<rparr>) act = (step read sel s act)\<lparr>interrupt_chan := b'\<rparr>"
proof (cases "coord s")
  case Running
  with assms(2) show ?thesis by simp
next
  case (Closing d)
  show ?thesis
  proof (cases act)
    case Signal
    with Closing show ?thesis by (auto simp: step_def intro: exI [of _ True])
  next
    case (Arrive a)
    with Closing show ?thesis
      by (auto simp: step_def arrive_def split: prod.splits intro: exI [of _ b])
  next
    case (Elapse n)
    with Closing show ?thesis by (auto simp: step_def intro: exI [of _ b])
  next
    case (Select p)
    with Closing assms show ?thesis by (auto simp: step_def intro: exI [of _ b])
  qed
next
  case (Done e)
  then show ?thesis by (auto simp: step_def intro: exI [of _ b])
qed

lemma run_chan:
  assumes sel1: "\<And>p s. coord s \<noteq> Running \<Longrightarrow> coord (sel p s) \<noteq> Running"
    and sel2: "\<And>p s b. coord s \<noteq> Running \<Longrightarrow> sel p (s\<lparr>interrupt_chan := b\<rparr>) = (sel p s)\<lparr>interrupt_chan := b\<rparr>"
  shows "coord s \<noteq> Running \<Longrightarrow>
     \<exists>b'. foldl (step read sel) (s\<lparr>interrupt_chan := b\<rparr>) acts
            = (foldl (step read sel) s acts)\<lparr>interrupt_chan := b'\<rparr>"
proof (induction acts arbitrary: s b)
  case Nil
  show ?case by auto
next
  case (Cons act acts)
  from step_chan [of sel s read b act, OF sel2 Cons.prems]
  obtain b' where b': "step read sel (s\<lparr>interrupt_chan := b\<rparr>) act = (step read sel s act)\<lparr>interrupt_chan := b'\<rparr>"
    by blast
  have "coord (step read sel s act) \<noteq> Running"
    using step_not_Running [of sel s read act, OF sel1 Cons.prems] .
  from Cons.IH [OF this, of b'] b' show ?case by simp
qed

lemma observable_chan: "observable (s\<lparr>interrupt_chan := b\<rparr>) = observable s"
  by (simp add: observable_def)

lemma signal_after_first:
  assumes sel1: "\<And>p s. coord s \<noteq> Running \<Longrightarrow> coord (sel p s) \<noteq> Running"
    and sel2: "\<And>p s b. coord s \<noteq> Running \<Longrightarrow> sel p (s\<lparr>interrupt_chan := b\<rparr>) = (sel p s)\<lparr>interrupt_chan := b\<rparr>"
    and "coord s = Closing d"
  shows "observable (foldl (step read sel) (step read sel s Signal) acts)
       = observable (foldl (step read sel) s acts)"
proof -
  have "step read sel s Signal = s\<lparr>interrupt_chan := True\<rparr>"
    using assms(3) by (simp add: step_def)
  moreover have "coord s \<noteq> Running" using assms(3) by simp
  ultimately show ?thesis
    using run_chan [of sel s read True acts, OF sel1 sel2] by (auto simp: observable_chan)
qed











lemma example_listen_start:
  "coord (listen_start example_env t0) = Running"
  "reader_open (listen_start example_env t0)"
  "\<not> interrupt_chan (listen_start example_env t0)"
  "writes (listen_start example_env t0) = []"
  "clock (listen_start example_env t0) = t0"
  by (simp_all add: listen_start_def example_env_def)

lemma example_connect_start:
  "coord (connect_start example_connect_env t0) = Running"
  "reader_open (connect_start example_connect_env t0)"
  "\<not> interrupt_chan (connect_start example_connect_env t0)"
  "writes (connect_start example_connect_env t0) = []"
  "clock (connect_start example_connect_env t0) = t0"
  by (simp_all add: connect_start_def example_connect_env_def)

lemma example_write_ok:
  "close_write_result example_env = None"
  "connect_close_write_result example_connect_env = None"
  by (simp_all add: example_env_def example_connect_env_def)

lemma listen_closing_from:
  assumes "coord s = Running" and "reader_open s" and "close_write_result E = None"
  shows "listen_run E s [Signal, Select p]
     = s\<lparr>coord := Closing (clock s + Second), interrupt_chan := False,
         printed := printed s @ [Print (nl @ wave_emoji @ '' Disconnecting...'' @ nl)],
         writes := writes s @ [close_frame]\<rparr>"
  using assms by (simp add: listen_run_def listen_step_def step_def listen_select_def)

lemma connect_closing_from:
  assumes "coord s = Running" and "reader_open s" and "connect_close_write_result C = None"
  shows "connect_run C s [Signal, Select p]
     = s\<lparr>coord := Closing (clock s + Second), interrupt_chan := False,
         printed := printed s @ [Print (nl @ ''Disconnecting...'' @ nl)],
         writes := writes s @ [close_frame]\<rparr>"
  using assms by (simp add: connect_run_def connect_step_def step_def connect_select_def)

lemmas example_listen_closing =
  listen_closing_from [OF example_listen_start(1,2) example_write_ok(1)]

lemmas example_connect_closing =
  connect_closing_from [OF example_connect_start(1,2) example_write_ok(2)]






lemma listen_arrive_closed: "\<not> reader_open s \<Longrightarrow> listen_step E s (Arrive a) = s"
  by (cases "coord s") (simp_all add: listen_step_def step_def arrive_def)

lemma listen_run_Cons: "listen_run E s (act # acts) = listen_run E (listen_step E s act) acts"
  by (simp add: listen_run_def)

lemma connect_run_Cons: "connect_run C s (act # acts) = connect_run C (connect_step C s act) acts"
  by (simp add: connect_run_def)

lemma connect_run_snoc: "connect_run C s (acts @ [act]) = connect_step C (connect_run C s acts) act"
  by (simp add: connect_run_def)



text \<open>In a session the receives are handled as the reader's loop handles them, whatever
  the control goroutine is doing, as long as the command has not returned.\<close>

lemma listen_run_arrivals_closed:
  "\<not> reader_open s \<Longrightarrow> listen_run E s (map Arrive as) = s"
  by (induction as) (simp_all add: listen_run_Cons listen_arrive_closed listen_run_def)

lemma listen_run_arrivals:
  assumes "coord s = Running \<or> coord s = Closing d" and "reader_open s"
  shows "printed (listen_run E s (map Arrive as)) = printed s @ fst (listen_reader E as)
       \<and> reader_open (listen_run E s (map Arrive as)) = (\<not> snd (listen_reader E as))
       \<and> coord (listen_run E s (map Arrive as)) = coord s"
  using assms
proof (induction as arbitrary: s)
  case Nil
  then show ?case by (simp add: listen_run_def)
next
  case (Cons a as)
  obtain outs fin where r: "listen_read E a = (outs, fin)" by (cases "listen_read E a")
  let ?s = "listen_step E s (Arrive a)"
  have s: "?s = s\<lparr>reader_open := \<not> fin, printed := printed s @ outs\<rparr>"
    using Cons.prems r by (auto simp: listen_step_def step_def arrive_def)
  show ?case
  proof (cases fin)
    case True
    then have "\<not> reader_open ?s" by (simp add: s)
    from listen_run_arrivals_closed [OF this, of E as] True r s show ?thesis
      by (simp add: listen_run_Cons)
  next
    case False
    have "coord ?s = Running \<or> coord ?s = Closing d" "reader_open ?s"
      using Cons.prems False by (simp_all add: s)
    from Cons.IH [OF this] False r s show ?thesis
      by (simp add: listen_run_Cons split: prod.splits)
  qed
qed







text \<open>
  C8. A second interrupt signal that arrives while the control goroutine is \<open>Closing\<close>
  changes nothing that can be observed, in either command: after any further course of
  the session, the calls of \<^verbatim>\<open>WriteMessage\<close> (so no second close frame), the output, the
  state of the shutdown, the reader and the clock are the same as without it.
\<close>


theorem second_signal_no_effect:
  assumes "coord s = Closing d" and "coord s' = Closing d'"
  shows "observable (listen_run E (listen_step E s Signal) acts) = observable (listen_run E s acts)
       \<and> writes (listen_run E (listen_step E s Signal) acts) = writes (listen_run E s acts)
       \<and> printed (listen_run E (listen_step E s Signal) acts) = printed (listen_run E s acts)
       \<and> coord (listen_run E (listen_step E s Signal) acts) = coord (listen_run E s acts)
       \<and> observable (connect_run C (connect_step C s' Signal) acts')
           = observable (connect_run C s' acts')
       \<and> writes (connect_run C (connect_step C s' Signal) acts') = writes (connect_run C s' acts')
       \<and> printed (connect_run C (connect_step C s' Signal) acts') = printed (connect_run C s' acts')
       \<and> coord (connect_run C (connect_step C s' Signal) acts') = coord (connect_run C s' acts')"
proof -
  have l: "observable (listen_run E (listen_step E s Signal) acts) = observable (listen_run E s acts)"
    unfolding listen_run_def listen_step_def
    by (rule signal_after_first [OF listen_select_not_Running listen_select_chan assms(1)])
  have c: "observable (connect_run C (connect_step C s' Signal) acts')
             = observable (connect_run C s' acts')"
    unfolding connect_run_def connect_step_def
    by (rule signal_after_first [OF connect_select_not_Running connect_select_chan assms(2)])
  from l c show ?thesis by (simp add: observable_def)
qed

theorem second_signal_no_effect_witness:
  "coord (listen_run example_env (listen_start example_env 0) [Signal, Select PickInterrupt])
     = Closing Second
   \<and> writes (listen_run example_env (listen_start example_env 0)
        [Signal, Select PickInterrupt, Signal, Elapse Second, Select PickInterrupt])
     = [close_frame]
   \<and> printed (listen_run example_env (listen_start example_env 0)
        [Signal, Select PickInterrupt, Signal, Elapse Second, Select PickInterrupt])
     = printed (listen_run example_env (listen_start example_env 0) [Signal, Select PickInterrupt])
   \<and> coord (listen_run example_env (listen_start example_env 0)
        [Signal, Select PickInterrupt, Signal, Elapse Second, Select PickInterrupt])
     = Done RunReturned
   \<and> writes (connect_run example_connect_env (connect_start example_connect_env 0)
        [Signal, Select PickInterrupt, Signal, Elapse Second, Select PickInterrupt])
     = [close_frame]
   \<and> coord (connect_run example_connect_env (connect_start example_connect_env 0)
        [Signal, Select PickInterrupt, Signal, Elapse Second, Select PickInterrupt])
     = Done RunReturned"
proof -
  let ?E = example_env and ?C = example_connect_env
  let ?c = "listen_run ?E (listen_start ?E 0) [Signal, Select PickInterrupt]"
  let ?c' = "connect_run ?C (connect_start ?C 0) [Signal, Select PickInterrupt]"
  have f: "coord ?c = Closing Second" "coord ?c' = Closing Second"
    unfolding example_listen_closing example_connect_closing
    by (simp_all add: example_listen_start example_connect_start)
  have r: "listen_run ?E (listen_start ?E 0)
             [Signal, Select PickInterrupt, Signal, Elapse Second, Select PickInterrupt]
           = listen_run ?E (listen_step ?E ?c Signal) [Elapse Second, Select PickInterrupt]"
    "connect_run ?C (connect_start ?C 0)
             [Signal, Select PickInterrupt, Signal, Elapse Second, Select PickInterrupt]
           = connect_run ?C (connect_step ?C ?c' Signal) [Elapse Second, Select PickInterrupt]"
    by (simp_all add: listen_run_def connect_run_def)
  have e: "listen_run ?E ?c [Elapse Second, Select PickInterrupt]
             = ?c\<lparr>clock := clock ?c + Second, coord := Done RunReturned\<rparr>"
    "connect_run ?C ?c' [Elapse Second, Select PickInterrupt]
             = ?c'\<lparr>clock := clock ?c' + Second, coord := Done RunReturned\<rparr>"
    using f
    by (simp_all add: listen_run_def connect_run_def listen_step_def connect_step_def step_def
          listen_select_def connect_select_def)
  have w: "writes ?c = [close_frame]" "writes ?c' = [close_frame]"
    unfolding example_listen_closing example_connect_closing
    by (simp_all add: example_listen_start example_connect_start)
  from second_signal_no_effect [OF f, of ?E "[Elapse Second, Select PickInterrupt]" ?C
         "[Elapse Second, Select PickInterrupt]"]
  show ?thesis unfolding r e using f w by simp
qed

text \<open>
  C3, at the failing input: \<^verbatim>\<open>Dial\<close> fails in the listen command. The command prints the
  failure and returns from \<^verbatim>\<open>Run\<close>, which is exit code 0, where the connect command ends
  in \<^verbatim>\<open>log.Fatal\<close> with exit code 1.
\<close>


theorem listen_dial_failure_exits_zero:
  "coord (listen_start (example_env\<lparr>dial_result := Some refused\<rparr>) 0) = Done RunReturned
   \<and> exit_code RunReturned = 0
   \<and> printed (listen_start (example_env\<lparr>dial_result := Some refused\<rparr>) 0)
     = [Print (plug_emoji
               @ '' Connecting to ws://localhost:8089/v1/events/stream?api_key=sk_test_1234...'' @ nl),
        Print (cross_emoji
               @ '' Failed to connect: dial tcp 127.0.0.1:8089: connect: connection refused'' @ nl)]
   \<and> coord (connect_start (example_connect_env\<lparr>connect_dial := (\<lambda>u h. Some refused)\<rparr>) 0)
     = Done (OsExit 1)
   \<and> exit_code (OsExit 1) = 1"
  by (simp add: listen_start_def connect_start_def example_env_def example_connect_env_def
        exit_code_def refused_def ws_url_def)

text \<open>
  C6, at the failing input: the receive of the connect command ends with a normal close
  (code 1000). Its reader logs \<^verbatim>\<open>read-error:\<close> with the error all the same, where the reader
  of the listen command prints nothing.
\<close>


theorem connect_logs_normal_close:
  "connect_read \<lparr>result = ReadError normal_close, stamp = ''12:00:01''\<rparr>
     = ([Log (''read-error: websocket: close 1000 (normal)'' @ nl)], True)
   \<and> listen_read example_env \<lparr>result = ReadError normal_close, stamp = ''12:00:01''\<rparr>
     = ([], True)
   \<and> printed (connect_run example_connect_env (connect_start example_connect_env 0)
        [Arrive \<lparr>result = ReadError normal_close, stamp = ''12:00:01''\<rparr>])
     = printed (connect_start example_connect_env 0)
       @ [Log (''read-error: websocket: close 1000 (normal)'' @ nl)]"
  by (simp add: connect_read_def listen_read_def normal_close_def CloseGoingAway_def
        CloseNormalClosure_def connect_run_def connect_step_def step_def arrive_def
        example_connect_start)

end
